theory Spec2Isabelle
  imports Complex_Main "HOL-Library.Multiset"
begin

section \<open>Numbers and errors\<close>

text \<open>
  Prices, amounts and percentages are Python \<^verbatim>\<open>Decimal\<close> values (cluster centroids are
  floats converted with \<^verbatim>\<open>Decimal(...)\<close>). They are modelled as exact rationals: the
  properties below are about list lengths, signs, which exception is raised and which
  formula is evaluated, none of which depends on rounding.

  Every exception a modelled path can raise is a constructor of \<open>error\<close>. The last two
  constructors are the error names of the specification; they are here so that a
  statement can speak about them. No definition of this theory produces them, as no
  line of the source raises them.
\<close>

datatype error =
    ZeroDivisionError
  | DivisionByZero
  | InvalidOperation
  | ValueError
  | DegenerateAllocation
  | InsufficientLevels

text \<open>
  \<^verbatim>\<open>a / b\<close> on two \<^verbatim>\<open>Decimal\<close>s under the default context: a zero divisor raises
  \<^verbatim>\<open>decimal.InvalidOperation\<close> for \<^verbatim>\<open>0 / 0\<close> and \<^verbatim>\<open>decimal.DivisionByZero\<close> otherwise.
\<close>

definition decimal_div :: "rat \<Rightarrow> rat \<Rightarrow> error + rat" where
  "decimal_div a b =
     (if b = 0 then (if a = 0 then Inl InvalidOperation else Inl DivisionByZero)
      else Inr (a / b))"

text \<open>\<^verbatim>\<open>min(xs)\<close> and \<^verbatim>\<open>max(xs)\<close>: \<^verbatim>\<open>ValueError\<close> on an empty sequence.\<close>

fun py_min :: "rat list \<Rightarrow> error + rat" where
  "py_min [] = Inl ValueError"
| "py_min (x # xs) = Inr (fold min xs x)"

fun py_max :: "rat list \<Rightarrow> error + rat" where
  "py_max [] = Inl ValueError"
| "py_max (x # xs) = Inr (fold max xs x)"

section \<open>The Marroq controller: \<^verbatim>\<open>controllers/market_making/marroq.py\<close>\<close>

datatype trade_type = BUY | SELL

text \<open>
  The fields of \<^verbatim>\<open>self.config\<close> that \<^verbatim>\<open>get_executor_config\<close> reads (most are declared in
  the base configuration class), and the controller's own attribute
  \<^verbatim>\<open>dca_amounts_pct\<close>.
\<close>

record marroq_controller_config =
  config_connector_name :: string
  config_trading_pair :: string
  config_leverage :: int
  config_time_limit :: int
  config_stop_loss :: rat
  config_take_profit :: rat
  config_trailing_delta :: rat
  config_executor_activation_bounds :: "rat list option"
  config_dca_amounts_distribution :: "rat list"

record trailing_stop =
  activation_price :: rat
  trailing_delta :: rat

record dca_executor_config =
  timestamp :: rat
  level_id :: string
  connector_name :: string
  trading_pair :: string
  prices :: "rat list"
  amounts_quote :: "rat list"
  leverage :: int
  side :: trade_type
  time_limit :: int
  stop_loss :: rat
  trailing_stop :: trailing_stop
  activation_bounds :: "rat list option"
  take_profit :: rat

text \<open>
  \<^verbatim>\<open>__init__\<close>, line 105:
  \<^verbatim>\<open>[amount / sum(config.dca_amounts_distribution) for amount in config.dca_amounts_distribution]\<close>.
  The sum is evaluated once per element, so an empty distribution gives the empty list
  without dividing.
\<close>

fun dca_amounts_pct_from :: "rat \<Rightarrow> rat list \<Rightarrow> error + rat list" where
  "dca_amounts_pct_from s [] = Inr []"
| "dca_amounts_pct_from s (amount # rest) =
     (case decimal_div amount s of
        Inl e \<Rightarrow> Inl e
      | Inr pct \<Rightarrow>
          (case dca_amounts_pct_from s rest of
             Inl e \<Rightarrow> Inl e
           | Inr pcts \<Rightarrow> Inr (pct # pcts)))"

definition dca_amounts_pct :: "marroq_controller_config \<Rightarrow> error + rat list" where
  "dca_amounts_pct config =
     dca_amounts_pct_from (sum_list (config_dca_amounts_distribution config))
       (config_dca_amounts_distribution config)"

text \<open>
  The local variables of \<^verbatim>\<open>get_executor_config\<close>, lines 145 to 163, one definition
  each. \<open>high_clusters\<close> and \<open>low_clusters\<close> are what \<^verbatim>\<open>find_and_cluster_peaks\<close>
  returned for the candles, here with every centroid a number.
\<close>

definition relevant_high_clusters :: "rat list \<Rightarrow> rat \<Rightarrow> rat list" where
  "relevant_high_clusters high_clusters price = filter (\<lambda>c. c > price) high_clusters"

definition relevant_low_clusters :: "rat list \<Rightarrow> rat \<Rightarrow> rat list" where
  "relevant_low_clusters low_clusters price = filter (\<lambda>c. c < price) low_clusters"

definition selected_clusters :: "trade_type \<Rightarrow> rat list \<Rightarrow> rat list \<Rightarrow> rat \<Rightarrow> rat list" where
  "selected_clusters trade_type high_clusters low_clusters price =
     (if trade_type = BUY then relevant_low_clusters low_clusters price
      else relevant_high_clusters high_clusters price)"

definition adjusted_amounts_pct :: "rat list \<Rightarrow> rat list \<Rightarrow> rat list" where
  "adjusted_amounts_pct amounts_pct selected =
     (if length selected + 1 < length amounts_pct
      then take (length selected + 1) amounts_pct
      else amounts_pct)"

definition ladder_prices :: "rat \<Rightarrow> rat list \<Rightarrow> rat list" where
  "ladder_prices price selected = price # selected"

definition ladder_amounts_quote :: "rat \<Rightarrow> rat list \<Rightarrow> rat list \<Rightarrow> rat list" where
  "ladder_amounts_quote amount adjusted ps =
     map (\<lambda>(pct, price). amount * pct * price) (zip adjusted ps)"

text \<open>
  Line 163: \<^verbatim>\<open>sum(p * a for p, a in zip(prices, amounts_quote)) / sum(amounts_quote)\<close>.
  \<^verbatim>\<open>sum\<close> starts from the integer 0, so with no amounts both sums are the integer 0 and
  the division raises \<^verbatim>\<open>ZeroDivisionError\<close>; otherwise the divisor is a \<^verbatim>\<open>Decimal\<close>.
\<close>

definition breakeven_price :: "rat list \<Rightarrow> rat list \<Rightarrow> error + rat" where
  "breakeven_price ps amounts =
     (if amounts = [] then Inl ZeroDivisionError
      else decimal_div (sum_list (map (\<lambda>(p, a). p * a) (zip ps amounts))) (sum_list amounts))"

text \<open>
  Lines 166 to 173: the stop-loss percentage and the trailing-stop price, per side.
\<close>

definition stop_loss_and_trailing ::
  "trade_type \<Rightarrow> rat list \<Rightarrow> rat list \<Rightarrow> rat list \<Rightarrow> rat \<Rightarrow> rat \<Rightarrow> rat \<Rightarrow> error + rat \<times> rat" where
  "stop_loss_and_trailing trade_type selected rel_high rel_low total_range sl breakeven =
     (if trade_type = BUY then
        (case py_min selected of
           Inl e \<Rightarrow> Inl e
         | Inr lowest \<Rightarrow>
             (case decimal_div (breakeven - (lowest - total_range * sl)) breakeven of
                Inl e \<Rightarrow> Inl e
              | Inr sl_pct \<Rightarrow>
                  (case py_min rel_high of
                     Inl e \<Rightarrow> Inl e
                   | Inr trailing_stop_price \<Rightarrow> Inr (sl_pct, trailing_stop_price))))
      else
        (case py_max selected of
           Inl e \<Rightarrow> Inl e
         | Inr highest \<Rightarrow>
             (case decimal_div ((highest + total_range * sl) - breakeven) breakeven of
                Inl e \<Rightarrow> Inl e
              | Inr sl_pct \<Rightarrow>
                  (case py_max rel_low of
                     Inl e \<Rightarrow> Inl e
                   | Inr trailing_stop_price \<Rightarrow> Inr (sl_pct, trailing_stop_price)))))"

text \<open>
  \<^verbatim>\<open>get_executor_config\<close>. Its inputs that come from collaborators outside the file are
  arguments: \<open>now\<close> is \<^verbatim>\<open>time.time()\<close>, \<open>trade_type\<close> is
  \<^verbatim>\<open>get_trade_type_from_level_id(level_id)\<close>, \<open>amounts_pct\<close> is \<^verbatim>\<open>self.dca_amounts_pct\<close>,
  the two cluster lists are the result of \<^verbatim>\<open>find_and_cluster_peaks\<close> and \<open>total_range\<close>
  is \<^verbatim>\<open>candles['high'].max() - candles['low'].min()\<close>.
\<close>

definition get_executor_config ::
  "marroq_controller_config \<Rightarrow> rat list \<Rightarrow> rat \<Rightarrow> string \<Rightarrow> trade_type \<Rightarrow>
   rat list \<Rightarrow> rat list \<Rightarrow> rat \<Rightarrow> rat \<Rightarrow> rat \<Rightarrow> error + dca_executor_config" where
  "get_executor_config config amounts_pct now lvl trade_type high_clusters low_clusters
       total_range price amount =
     (let rel_high = relevant_high_clusters high_clusters price;
          rel_low = relevant_low_clusters low_clusters price;
          selected = selected_clusters trade_type high_clusters low_clusters price;
          adjusted = adjusted_amounts_pct amounts_pct selected;
          ps = ladder_prices price selected;
          amounts = ladder_amounts_quote amount adjusted ps
      in case breakeven_price ps amounts of
           Inl e \<Rightarrow> Inl e
         | Inr breakeven \<Rightarrow>
             (case stop_loss_and_trailing trade_type selected rel_high rel_low total_range
                     (config_stop_loss config) breakeven of
                Inl e \<Rightarrow> Inl e
              | Inr (sl_pct, trailing_stop_price) \<Rightarrow>
                  (case decimal_div (price - trailing_stop_price) price of
                     Inl e \<Rightarrow> Inl e
                   | Inr activation \<Rightarrow>
                       Inr \<lparr> timestamp = now,
                             level_id = lvl,
                             connector_name = config_connector_name config,
                             trading_pair = config_trading_pair config,
                             prices = ps,
                             amounts_quote = amounts,
                             leverage = config_leverage config,
                             side = trade_type,
                             time_limit = config_time_limit config,
                             stop_loss = sl_pct,
                             trailing_stop =
                               \<lparr> activation_price = activation,
                                 trailing_delta = config_trailing_delta config \<rparr>,
                             activation_bounds = config_executor_activation_bounds config,
                             take_profit = config_take_profit config \<rparr>)))"

text \<open>A configuration used in the worked examples: level-1 weights 1, 2, 4, 8.\<close>

definition example_config :: marroq_controller_config where
  "example_config =
     \<lparr> config_connector_name = ''binance_perpetual'',
       config_trading_pair = ''BTC-USDT'',
       config_leverage = 20,
       config_time_limit = 2700,
       config_stop_loss = 1 / 50,
       config_take_profit = 1 / 100,
       config_trailing_delta = 1 / 200,
       config_executor_activation_bounds = None,
       config_dca_amounts_distribution = [1, 2, 4, 8] \<rparr>"

section \<open>Clustering: \<^verbatim>\<open>hummingbot/smart_components/utils/peak_analysis_utils.py\<close>\<close>

text \<open>
  \<^verbatim>\<open>hierarchical_clustering\<close> has three lines. The first two call the clustering
  library (\<^verbatim>\<open>linkage\<close>, then \<^verbatim>\<open>fcluster\<close> with \<^verbatim>\<open>criterion='maxclust'\<close>), which is not part
  of the repository: their outcome is the argument \<open>fcluster_result\<close>, either the
  exception the library raised or the label array, one label per peak. The third line is
  the code modelled here:
  \<^verbatim>\<open>centroids = [peaks[labels == k].mean() for k in range(1, num_clusters + 1)]\<close>.

  \<^verbatim>\<open>peaks[labels == k]\<close> selects the peaks whose label is \<open>k\<close>. The mean of an empty
  selection is the undefined float (NaN), modelled as \<open>None\<close>.
\<close>

definition np_mean :: "rat list \<Rightarrow> rat option" where
  "np_mean xs = (if xs = [] then None else Some (sum_list xs / of_nat (length xs)))"

definition boolean_mask :: "rat list \<Rightarrow> int list \<Rightarrow> int \<Rightarrow> rat list" where
  "boolean_mask peaks labels k = map fst (filter (\<lambda>(p, l). l = k) (zip peaks labels))"

definition hierarchical_clustering ::
  "error + int list \<Rightarrow> rat list \<Rightarrow> int \<Rightarrow> error + rat option list \<times> int list" where
  "hierarchical_clustering fcluster_result peaks num_clusters =
     (case fcluster_result of
        Inl e \<Rightarrow> Inl e
      | Inr labels \<Rightarrow>
          Inr (map (\<lambda>k. np_mean (boolean_mask peaks labels k)) [1..num_clusters], labels))"

section \<open>Actions\<close>

text \<open>
  The three action classes of \<^verbatim>\<open>hummingbot.smart_components.models.executor_actions\<close>,
  over the configuration type an executor is created from. \<open>OtherAction\<close> stands for
  an object of any other class, which \<^verbatim>\<open>isinstance\<close> dispatch sends to its \<^verbatim>\<open>else\<close> branch.
\<close>

datatype 'cfg executor_action =
    CreateExecutorAction 'cfg
  | StopExecutorAction string
  | StoreExecutorAction string
  | OtherAction

section \<open>The executor handler:
  \<^verbatim>\<open>strategy_frameworks/generic_strategy/generic_executor.py\<close>\<close>

text \<open>
  An executor configuration is told apart by its class and carries its \<^verbatim>\<open>id\<close>;
  \<open>OtherExecutorConfig\<close> is a configuration of a class \<^verbatim>\<open>create_executor\<close> has no
  branch for.
\<close>

datatype executor_config =
    PositionExecutorConfig string
  | DCAExecutorConfig string
  | ArbitrageExecutorConfig string
  | OtherExecutorConfig string

fun config_id :: "executor_config \<Rightarrow> string" where
  "config_id (PositionExecutorConfig i) = i"
| "config_id (DCAExecutorConfig i) = i"
| "config_id (ArbitrageExecutorConfig i) = i"
| "config_id (OtherExecutorConfig i) = i"

text \<open>
  An executor object. \<open>executor_object\<close> is the identity of the Python object: the
  executor classes define no \<^verbatim>\<open>__eq__\<close>, so \<^verbatim>\<open>list.remove\<close> compares by identity, and two
  records are equal exactly when they are the same object. \<open>is_active\<close> and
  \<open>is_closed\<close> are the executor's own properties as the handler reads them.
\<close>

record executor =
  executor_object :: nat
  executor_config :: executor_config
  is_active :: bool
  is_closed :: bool

text \<open>
  The handler's state: its three lists, and the two effects it has on its
  collaborators, recorded in call order: the executors passed to
  \<^verbatim>\<open>MarketsRecorder.get_instance().store_executor\<close> and the executors whose \<^verbatim>\<open>early_stop()\<close>
  was called. \<open>next_object\<close> is the identity the next constructed executor gets.
\<close>

record generic_executor =
  position_executors :: "executor list"
  dca_executors :: "executor list"
  arbitrage_executors :: "executor list"
  stored_executors :: "executor list"
  early_stopped :: "executor list"
  next_object :: nat

text \<open>
  Modelled from the spec: the executor classes are not under src. A constructed and
  started executor is Active and not Terminated (section 4.3), and \<^verbatim>\<open>early_stop()\<close> is a
  cooperative request (section 5): the call is recorded and the flags the handler reads
  stay as they are for the rest of the loop.
\<close>

definition started_executor :: "nat \<Rightarrow> executor_config \<Rightarrow> executor" where
  "started_executor object cfg =
     \<lparr> executor_object = object, executor_config = cfg,
       is_active = True, is_closed = False \<rparr>"

fun create_executor :: "executor_config \<Rightarrow> generic_executor \<Rightarrow> generic_executor" where
  "create_executor (PositionExecutorConfig i) self =
     self \<lparr> position_executors :=
              position_executors self @ [started_executor (next_object self) (PositionExecutorConfig i)],
            next_object := Suc (next_object self) \<rparr>"
| "create_executor (DCAExecutorConfig i) self =
     self \<lparr> dca_executors :=
              dca_executors self @ [started_executor (next_object self) (DCAExecutorConfig i)],
            next_object := Suc (next_object self) \<rparr>"
| "create_executor (ArbitrageExecutorConfig i) self =
     self \<lparr> arbitrage_executors :=
              arbitrage_executors self @ [started_executor (next_object self) (ArbitrageExecutorConfig i)],
            next_object := Suc (next_object self) \<rparr>"
| "create_executor (OtherExecutorConfig i) self = self"

text \<open>
  \<^verbatim>\<open>get_executor_by_id\<close>: the first executor of
  \<^verbatim>\<open>position_executors + dca_executors + arbitrage_executors\<close> whose \<^verbatim>\<open>config.id\<close> is the
  id, or \<^verbatim>\<open>None\<close>.
\<close>

definition get_executor_by_id :: "generic_executor \<Rightarrow> string \<Rightarrow> executor option" where
  "get_executor_by_id self executor_id =
     find (\<lambda>executor. config_id (executor_config executor) = executor_id)
       (position_executors self @ dca_executors self @ arbitrage_executors self)"

text \<open>
  The body of the loop of \<^verbatim>\<open>execute_actions\<close>, for one action: the exception it raises,
  if any, and the handler's state when it returns or raises. \<^verbatim>\<open>list.remove\<close> raises
  \<^verbatim>\<open>ValueError\<close> when the executor is not in the list; the call to \<^verbatim>\<open>store_executor\<close> has
  already happened then.
\<close>

fun execute_actions_step ::
  "executor_config executor_action \<Rightarrow> generic_executor \<Rightarrow> error option \<times> generic_executor" where
  "execute_actions_step (CreateExecutorAction cfg) self =
     (None, create_executor cfg self)"
| "execute_actions_step (StopExecutorAction executor_id) self =
     (case get_executor_by_id self executor_id of
        None \<Rightarrow> (None, self)
      | Some executor \<Rightarrow>
          if is_active executor
          then (None, self \<lparr> early_stopped := early_stopped self @ [executor] \<rparr>)
          else (None, self))"
| "execute_actions_step (StoreExecutorAction executor_id) self =
     (case get_executor_by_id self executor_id of
        None \<Rightarrow> (None, self)
      | Some executor \<Rightarrow>
          if is_closed executor
          then (if executor \<in> set (dca_executors self) then None else Some ValueError,
                self \<lparr> stored_executors := stored_executors self @ [executor],
                       dca_executors := remove1 executor (dca_executors self) \<rparr>)
          else (None, self))"
| "execute_actions_step OtherAction self = (Some ValueError, self)"

text \<open>\<^verbatim>\<open>execute_actions\<close>: the actions in order; an exception ends the loop.\<close>

fun execute_actions ::
  "executor_config executor_action list \<Rightarrow> generic_executor \<Rightarrow> error option \<times> generic_executor" where
  "execute_actions [] self = (None, self)"
| "execute_actions (action # actions) self =
     (case execute_actions_step action self of
        (Some e, self') \<Rightarrow> (Some e, self')
      | (None, self') \<Rightarrow> execute_actions actions self')"

text \<open>A handler state used in the worked examples, and its executors.\<close>

definition open_dca :: executor where
  "open_dca = \<lparr> executor_object = 0, executor_config = DCAExecutorConfig ''dca-1'',
                is_active = True, is_closed = False \<rparr>"

definition closed_dca :: executor where
  "closed_dca = \<lparr> executor_object = 1, executor_config = DCAExecutorConfig ''dca-2'',
                  is_active = False, is_closed = True \<rparr>"

definition closed_position :: executor where
  "closed_position = \<lparr> executor_object = 2, executor_config = PositionExecutorConfig ''pos-1'',
                       is_active = False, is_closed = True \<rparr>"

definition closed_arbitrage :: executor where
  "closed_arbitrage = \<lparr> executor_object = 3, executor_config = ArbitrageExecutorConfig ''arb-1'',
                        is_active = False, is_closed = True \<rparr>"

definition example_handler :: generic_executor where
  "example_handler =
     \<lparr> position_executors = [closed_position],
       dca_executors = [open_dca, closed_dca],
       arbitrage_executors = [closed_arbitrage],
       stored_executors = [],
       early_stopped = [],
       next_object = 4 \<rparr>"

section \<open>The single-level market-making script: \<^verbatim>\<open>scripts/v2_pmm_single_level.py\<close>\<close>

datatype smart_component_status = NOT_STARTED | RUNNING | SHUTTING_DOWN | TERMINATED

text \<open>
  The fields of an \<^verbatim>\<open>ExecutorInfo\<close> that the script reads; \<open>info_trading_pair\<close> is
  \<^verbatim>\<open>x.config.trading_pair\<close>.
\<close>

record executor_info =
  info_id :: string
  info_type :: string
  info_side :: trade_type
  info_trading_pair :: string
  info_status :: smart_component_status
  info_timestamp :: rat
  info_is_active :: bool
  info_is_trading :: bool

datatype order_type = MARKET | LIMIT | LIMIT_MAKER

record triple_barrier_config =
  barrier_stop_loss :: rat
  barrier_take_profit :: rat
  barrier_time_limit :: int
  open_order_type :: order_type
  take_profit_order_type :: order_type
  stop_loss_order_type :: order_type
  time_limit_order_type :: order_type

text \<open>The fields of \<^verbatim>\<open>PMMWithPositionExecutorConfig\<close> read below.\<close>

record pmm_config =
  pmm_order_amount_quote :: rat
  pmm_spread :: rat
  pmm_leverage :: int
  pmm_stop_loss :: rat
  pmm_take_profit :: rat
  pmm_time_limit :: int
  pmm_take_profit_order_type :: order_type

definition triple_barrier_config_of :: "pmm_config \<Rightarrow> triple_barrier_config" where
  "triple_barrier_config_of config =
     \<lparr> barrier_stop_loss = pmm_stop_loss config,
       barrier_take_profit = pmm_take_profit config,
       barrier_time_limit = pmm_time_limit config,
       open_order_type = LIMIT,
       take_profit_order_type = pmm_take_profit_order_type config,
       stop_loss_order_type = MARKET,
       time_limit_order_type = MARKET \<rparr>"

record position_executor_config =
  position_timestamp :: rat
  position_trading_pair :: string
  position_exchange :: string
  position_side :: trade_type
  position_amount :: rat
  position_entry_price :: rat
  position_triple_barrier_config :: triple_barrier_config
  position_leverage :: int

text \<open>
  The strategy object and what it reads from its collaborators during one tick:
  \<open>connectors\<close> are the keys of \<^verbatim>\<open>self.connectors\<close> in iteration order (a dict: no key
  twice), \<open>get_trading_pairs\<close> the pairs of a connector in iteration order (a set: no
  pair twice), \<open>get_mid_price\<close> is \<^verbatim>\<open>get_price_by_type(..., PriceType.MidPrice)\<close>,
  \<open>get_all_executors\<close> the value of \<^verbatim>\<open>self.get_all_executors()\<close>, and
  \<open>closed_executors_buffer\<close> the attribute \<^verbatim>\<open>self.closed_executors_buffer\<close> (the class
  attribute, 10 in the source).
\<close>

record pmm_single_level =
  strategy_config :: pmm_config
  connectors :: "string list"
  get_trading_pairs :: "string \<Rightarrow> string list"
  get_mid_price :: "string \<Rightarrow> string \<Rightarrow> rat"
  current_timestamp :: rat
  get_all_executors :: "executor_info list"
  closed_executors_buffer :: int

text \<open>
  Modelled from the spec: \<^verbatim>\<open>filter_executors\<close> is inherited from the strategy base class,
  which is not under src. It keeps the executors that satisfy \<open>filter_func\<close>, in order.
\<close>

definition filter_executors ::
  "executor_info list \<Rightarrow> (executor_info \<Rightarrow> bool) \<Rightarrow> executor_info list" where
  "filter_executors executors filter_func = filter filter_func executors"

text \<open>
  A \<^verbatim>\<open>for\<close> loop that extends one result list: the loop body gives the actions it appends
  for an element, or the exception it raises, which ends the loop.
\<close>

fun for_each :: "('a \<Rightarrow> error + 'b list) \<Rightarrow> 'a list \<Rightarrow> error + 'b list" where
  "for_each body [] = Inr []"
| "for_each body (x # xs) =
     (case body x of
        Inl e \<Rightarrow> Inl e
      | Inr appended \<Rightarrow>
          (case for_each body xs of
             Inl e \<Rightarrow> Inl e
           | Inr rest \<Rightarrow> Inr (appended @ rest)))"

definition active_buy_position_executors :: "pmm_single_level \<Rightarrow> executor_info list" where
  "active_buy_position_executors self =
     filter_executors (get_all_executors self)
       (\<lambda>x. info_side x = BUY \<and> info_type x = ''position_executor'' \<and> info_is_active x)"

definition active_sell_position_executors :: "pmm_single_level \<Rightarrow> executor_info list" where
  "active_sell_position_executors self =
     filter_executors (get_all_executors self)
       (\<lambda>x. info_side x = SELL \<and> info_type x = ''position_executor'' \<and> info_is_active x)"

text \<open>
  Lines 156 to 169 (and 174 to 187 for the other side): the order amount and the
  \<^verbatim>\<open>CreateExecutorAction\<close> appended for one side at \<open>order_price\<close>.
\<close>

definition create_position_action ::
  "pmm_single_level \<Rightarrow> string \<Rightarrow> string \<Rightarrow> trade_type \<Rightarrow> rat \<Rightarrow>
   error + position_executor_config executor_action list" where
  "create_position_action self connector pair trade_type order_price =
     (case decimal_div (pmm_order_amount_quote (strategy_config self)) order_price of
        Inl e \<Rightarrow> Inl e
      | Inr order_amount \<Rightarrow>
          Inr [CreateExecutorAction
                 \<lparr> position_timestamp = current_timestamp self,
                   position_trading_pair = pair,
                   position_exchange = connector,
                   position_side = trade_type,
                   position_amount = order_amount,
                   position_entry_price = order_price,
                   position_triple_barrier_config = triple_barrier_config_of (strategy_config self),
                   position_leverage = pmm_leverage (strategy_config self) \<rparr>])"

text \<open>The body of the inner loop of \<^verbatim>\<open>create_actions_proposal\<close>, lines 149 to 187.\<close>

definition create_actions_for_pair ::
  "pmm_single_level \<Rightarrow> string \<Rightarrow> string \<Rightarrow>
   error + position_executor_config executor_action list" where
  "create_actions_for_pair self connector pair =
     (let mid_price = get_mid_price self connector pair;
          len_active_buys = length (filter_executors (active_buy_position_executors self)
                                      (\<lambda>x. info_trading_pair x = pair))
      in case (if len_active_buys = 0
               then create_position_action self connector pair BUY
                      (mid_price * (1 - pmm_spread (strategy_config self)))
               else Inr []) of
           Inl e \<Rightarrow> Inl e
         | Inr buys \<Rightarrow>
             (let len_active_sells = length (filter_executors (active_sell_position_executors self)
                                               (\<lambda>x. info_trading_pair x = pair))
              in case (if len_active_sells = 0
                       then create_position_action self connector pair SELL
                              (mid_price * (1 + pmm_spread (strategy_config self)))
                       else Inr []) of
                   Inl e \<Rightarrow> Inl e
                 | Inr sells \<Rightarrow> Inr (buys @ sells)))"

definition create_actions_proposal ::
  "pmm_single_level \<Rightarrow> error + position_executor_config executor_action list" where
  "create_actions_proposal self =
     for_each
       (\<lambda>connector.
          for_each (create_actions_for_pair self connector)
            (get_trading_pairs self connector))
       (connectors self)"




text \<open>
  Two observers of an action, for statements: whether it creates an executor for a
  connector, pair and side, and a summary of what it creates.
\<close>

fun creates_for ::
  "string \<Rightarrow> string \<Rightarrow> trade_type \<Rightarrow> position_executor_config executor_action \<Rightarrow> bool" where
  "creates_for connector pair trade_type (CreateExecutorAction c) =
     (position_exchange c = connector \<and> position_trading_pair c = pair
      \<and> position_side c = trade_type)"
| "creates_for connector pair trade_type (StopExecutorAction i) = False"
| "creates_for connector pair trade_type (StoreExecutorAction i) = False"
| "creates_for connector pair trade_type OtherAction = False"

fun created :: "position_executor_config executor_action \<Rightarrow> (string \<times> string \<times> trade_type \<times> rat) option" where
  "created (CreateExecutorAction c) =
     Some (position_exchange c, position_trading_pair c, position_side c, position_entry_price c)"
| "created (StopExecutorAction i) = None"
| "created (StoreExecutorAction i) = None"
| "created OtherAction = None"


text \<open>Strategy states used in the worked examples.\<close>

definition example_pmm_config :: pmm_config where
  "example_pmm_config =
     \<lparr> pmm_order_amount_quote = 30, pmm_spread = 3 / 1000, pmm_leverage = 20,
       pmm_stop_loss = 3 / 100, pmm_take_profit = 1 / 100, pmm_time_limit = 2700,
       pmm_take_profit_order_type = LIMIT \<rparr>"

definition example_pairs :: "string \<Rightarrow> string list" where
  "example_pairs connector = [''BTC-USDT'']"

definition example_mid_price :: "string \<Rightarrow> string \<Rightarrow> rat" where
  "example_mid_price connector pair = 1000"


definition example_strategy :: "string list \<Rightarrow> executor_info list \<Rightarrow> pmm_single_level" where
  "example_strategy connector_names executors =
     \<lparr> strategy_config = example_pmm_config,
       connectors = connector_names,
       get_trading_pairs = example_pairs,
       get_mid_price = example_mid_price,
       current_timestamp = 5000,
       get_all_executors = executors,
       closed_executors_buffer = 10 \<rparr>"

definition active_position_executor :: "string \<Rightarrow> trade_type \<Rightarrow> string \<Rightarrow> rat \<Rightarrow> executor_info" where
  "active_position_executor i t p ts =
     \<lparr> info_id = i, info_type = ''position_executor'', info_side = t, info_trading_pair = p,
       info_status = RUNNING, info_timestamp = ts, info_is_active = True,
       info_is_trading = False \<rparr>"



section \<open>Properties of the configuration builder\<close>

lemma py_min_mem: "py_min xs = Inr m \<Longrightarrow> m \<in> set xs"
proof (cases xs)
  case Nil
  assume "py_min xs = Inr m"
  with Nil show ?thesis by simp
next
  case (Cons x rest)
  assume h: "py_min xs = Inr m"
  have "fold min rest x \<in> set (x # rest)"
    by (induction rest arbitrary: x) (auto simp: min_def)
  with h Cons show ?thesis by simp
qed

lemma py_max_mem: "py_max xs = Inr m \<Longrightarrow> m \<in> set xs"
proof (cases xs)
  case Nil
  assume "py_max xs = Inr m"
  with Nil show ?thesis by simp
next
  case (Cons x rest)
  assume h: "py_max xs = Inr m"
  have "fold max rest x \<in> set (x # rest)"
    by (induction rest arbitrary: x) (auto simp: max_def)
  with h Cons show ?thesis by simp
qed

lemma example_config_amounts_pct:
  "dca_amounts_pct example_config = Inr [1 / 15, 2 / 15, 4 / 15, 8 / 15]"
  by (simp add: dca_amounts_pct_def example_config_def decimal_div_def)

text \<open>
  The two ladder lengths of any emitted plan: one price per selected cluster plus the
  entry, and as many amounts as \<^verbatim>\<open>zip\<close> pairs weights with prices.
\<close>

lemma get_executor_config_lengths:
  assumes "get_executor_config config amounts_pct now lvl trade_type high_clusters low_clusters
       total_range price amount = Inr c"
  shows "length (prices c) =
           length (selected_clusters trade_type high_clusters low_clusters price) + 1
     \<and> length (amounts_quote c) = min (length amounts_pct) (length (prices c))"
  using assms
  by (auto simp: get_executor_config_def Let_def ladder_prices_def ladder_amounts_quote_def
      adjusted_amounts_pct_def split: sum.splits prod.splits)

text \<open>
  C1. The claim: every emitted plan has as many prices as amounts, also when there are
  more price levels than weights. The code truncates the weights to the levels when the
  weights are the longer list, and does nothing for the opposite case: \<^verbatim>\<open>zip\<close> then
  drops the amounts of the deeper levels while \<open>prices\<close> keeps them. With the four
  weights 1, 2, 4, 8 (normalised) and five low clusters below the price, a Buy plan has
  six prices and four amounts.
\<close>

theorem get_executor_config_more_levels_than_weights:
  "(case get_executor_config example_config [1 / 15, 2 / 15, 4 / 15, 8 / 15] 0 ''buy_1'' BUY
           [105, 110, 115, 120, 125] [95, 90, 85, 80, 75] 50 100 1500 of
      Inl e \<Rightarrow> None
    | Inr c \<Rightarrow> Some (prices c, amounts_quote c, length (prices c), length (amounts_quote c)))
   = Some ([100, 95, 90, 85, 80, 75], [10000, 19000, 36000, 68000], 6, 4)"
  by (simp add: get_executor_config_def relevant_high_clusters_def relevant_low_clusters_def
      selected_clusters_def adjusted_amounts_pct_def ladder_prices_def ladder_amounts_quote_def
      breakeven_price_def stop_loss_and_trailing_def decimal_div_def example_config_def Let_def)

text \<open>The exceptions the builder can raise: Python's own, never one of the specification's.\<close>

lemma decimal_div_errors:
  "decimal_div a b = Inl e \<Longrightarrow> e = DivisionByZero \<or> e = InvalidOperation"
  by (auto simp: decimal_div_def split: if_splits)

lemma py_min_errors: "py_min xs = Inl e \<Longrightarrow> e = ValueError"
  by (cases xs) auto

lemma py_max_errors: "py_max xs = Inl e \<Longrightarrow> e = ValueError"
  by (cases xs) auto

lemma get_executor_config_errors:
  assumes "get_executor_config config amounts_pct now lvl trade_type high_clusters low_clusters
       total_range price amount = Inl e"
  shows "e = ZeroDivisionError \<or> e = DivisionByZero \<or> e = InvalidOperation \<or> e = ValueError"
  using assms
  by (auto simp: get_executor_config_def Let_def breakeven_price_def stop_loss_and_trailing_def
      split: sum.splits prod.splits if_splits
      dest: decimal_div_errors py_min_errors py_max_errors)

text \<open>
  C2, as the code has it. The breakeven division is unguarded. When the amounts sum to
  zero it raises Python's own arithmetic exception: \<^verbatim>\<open>ZeroDivisionError\<close> when the ladder
  has no amount at all, \<^verbatim>\<open>decimal.InvalidOperation\<close> when the numerator is zero as well,
  \<^verbatim>\<open>decimal.DivisionByZero\<close> otherwise; the builder fails with that exception. When the
  amounts do not sum to zero the breakeven price is the amount-weighted average
  \<^verbatim>\<open>sum(price_i * amount_i) / sum(amount_i)\<close>.
\<close>

theorem breakeven_price_zero_total_or_weighted_average:
  "(sum_list amounts = 0 \<longrightarrow>
      breakeven_price ps amounts =
        Inl (if amounts = [] then ZeroDivisionError
             else if sum_list (map (\<lambda>(p, a). p * a) (zip ps amounts)) = 0 then InvalidOperation
             else DivisionByZero)) \<and>
   (sum_list amounts \<noteq> 0 \<longrightarrow>
      breakeven_price ps amounts =
        Inr (sum_list (map (\<lambda>(p, a). p * a) (zip ps amounts)) / sum_list amounts)) \<and>
   (\<forall>e. breakeven_price
          (ladder_prices price (selected_clusters trade_type high_clusters low_clusters price))
          (ladder_amounts_quote amount
             (adjusted_amounts_pct amounts_pct
                (selected_clusters trade_type high_clusters low_clusters price))
             (ladder_prices price (selected_clusters trade_type high_clusters low_clusters price)))
        = Inl e \<longrightarrow>
        get_executor_config config amounts_pct now lvl trade_type high_clusters low_clusters
          total_range price amount = Inl e)"
  by (auto simp: breakeven_price_def decimal_div_def get_executor_config_def Let_def)

theorem breakeven_price_zero_total_or_weighted_average_witness:
  "sum_list [0, 0 :: rat] = 0
   \<and> breakeven_price [100, 95] [0, 0] = Inl InvalidOperation
   \<and> sum_list [500, 450 :: rat] \<noteq> 0
   \<and> breakeven_price [100, 90] [500, 450] = Inr (1810 / 19)
   \<and> get_executor_config example_config [1 / 2, 1 / 2] 0 ''buy_1'' BUY [105] [95] 50 100 0
       = Inl InvalidOperation"
proof -
  have be: "breakeven_price (ladder_prices 100 (selected_clusters BUY [105] [95] 100))
          (ladder_amounts_quote 0
             (adjusted_amounts_pct [1 / 2, 1 / 2] (selected_clusters BUY [105] [95] 100))
             (ladder_prices 100 (selected_clusters BUY [105] [95] 100)))
        = Inl InvalidOperation"
    by (simp add: selected_clusters_def relevant_low_clusters_def ladder_prices_def
        ladder_amounts_quote_def adjusted_amounts_pct_def breakeven_price_def decimal_div_def)
  show ?thesis
    using breakeven_price_zero_total_or_weighted_average [of "[0, 0]" "[100, 95]"]
      breakeven_price_zero_total_or_weighted_average [of "[500, 450]" "[100, 90]"]
      breakeven_price_zero_total_or_weighted_average
        [of _ _ 100 BUY "[105]" "[95]" 0 "[1 / 2, 1 / 2]" example_config 0 "''buy_1''" 50]
      be
    by simp
qed

text \<open>
  The claim C2 as stated fails: with order amount 0 every level's quote amount is 0, and
  the builder fails with \<^verbatim>\<open>decimal.InvalidOperation\<close>, not \<open>DegenerateAllocation\<close>.
\<close>

theorem zero_total_not_degenerate_allocation_counterexample:
  "sum_list (ladder_amounts_quote 0 [1 / 2, 1 / 2] [100, 95]) = 0
   \<and> get_executor_config example_config [1 / 2, 1 / 2] 0 ''buy_1'' BUY [105] [95] 50 100 0
       = Inl InvalidOperation
   \<and> get_executor_config example_config [1 / 2, 1 / 2] 0 ''buy_1'' BUY [105] [95] 50 100 0
       \<noteq> Inl DegenerateAllocation"
  by (simp add: get_executor_config_def relevant_high_clusters_def relevant_low_clusters_def
      selected_clusters_def adjusted_amounts_pct_def ladder_prices_def ladder_amounts_quote_def
      breakeven_price_def stop_loss_and_trailing_def decimal_div_def example_config_def Let_def)

lemma py_min_Min: "py_min xs = Inr m \<Longrightarrow> m = Min (set xs)"
proof (cases xs)
  case Nil
  assume "py_min xs = Inr m"
  with Nil show ?thesis by simp
next
  case (Cons x rest)
  assume "py_min xs = Inr m"
  with Cons have "m = fold min rest x" by simp
  also have "\<dots> = Min (set (x # rest))" by (rule Min.set_eq_fold [symmetric])
  finally show ?thesis using Cons by simp
qed

lemma py_max_Max: "py_max xs = Inr m \<Longrightarrow> m = Max (set xs)"
proof (cases xs)
  case Nil
  assume "py_max xs = Inr m"
  with Nil show ?thesis by simp
next
  case (Cons x rest)
  assume "py_max xs = Inr m"
  with Cons have "m = fold max rest x" by simp
  also have "\<dots> = Max (set (x # rest))" by (rule Max.set_eq_fold [symmetric])
  finally show ?thesis using Cons by simp
qed




text \<open>
  The trailing-stop activation of every emitted plan is \<^verbatim>\<open>(price - trailing_stop_price) / price\<close>
  on both sides. For a Buy the trailing-stop price is the lowest high cluster above the
  price, so the activation is minus the distance fraction; for a Sell it is the highest
  low cluster below the price, and the activation is the distance fraction.
\<close>

lemma get_executor_config_activation_buy:
  assumes "get_executor_config config amounts_pct now lvl BUY high_clusters low_clusters
       total_range price amount = Inr c"
  shows "relevant_high_clusters high_clusters price \<noteq> []
     \<and> activation_price (trailing_stop c) =
         - (\<bar>Min (set (relevant_high_clusters high_clusters price)) - price\<bar> / price)"
proof -
  from assms obtain nearest where n: "py_min (relevant_high_clusters high_clusters price) = Inr nearest"
    and a: "activation_price (trailing_stop c) = (price - nearest) / price"
    by (auto simp: get_executor_config_def Let_def stop_loss_and_trailing_def decimal_div_def
        split: sum.splits prod.splits if_splits)
  from py_min_mem[OF n] have ne: "relevant_high_clusters high_clusters price \<noteq> []"
    by auto
  from py_min_mem[OF n] have lt: "price < nearest"
    by (simp add: relevant_high_clusters_def)
  have "(price - nearest) / price = - (\<bar>nearest - price\<bar> / price)"
    using lt by (simp add: abs_if minus_divide_left)
  with a py_min_Min[OF n] ne show ?thesis by simp
qed

lemma get_executor_config_activation_sell:
  assumes "get_executor_config config amounts_pct now lvl SELL high_clusters low_clusters
       total_range price amount = Inr c"
  shows "relevant_low_clusters low_clusters price \<noteq> []
     \<and> activation_price (trailing_stop c) =
         \<bar>Max (set (relevant_low_clusters low_clusters price)) - price\<bar> / price"
proof -
  from assms obtain nearest where n: "py_max (relevant_low_clusters low_clusters price) = Inr nearest"
    and a: "activation_price (trailing_stop c) = (price - nearest) / price"
    by (auto simp: get_executor_config_def Let_def stop_loss_and_trailing_def decimal_div_def
        split: sum.splits prod.splits if_splits)
  from py_max_mem[OF n] have ne: "relevant_low_clusters low_clusters price \<noteq> []"
    by auto
  from py_max_mem[OF n] have lt: "nearest < price"
    by (simp add: relevant_low_clusters_def)
  have "(price - nearest) / price = \<bar>nearest - price\<bar> / price"
    using lt by (simp add: abs_if)
  with a py_max_Max[OF n] ne show ?thesis by simp
qed

text \<open>
  C6. The claim: the activation distance is
  \<^verbatim>\<open>|nearestOpposite - referencePrice| / referencePrice\<close>. For a Buy at price 100 whose
  nearest high cluster is 110 the code emits \<open>- 1 / 10\<close>, where the claim says \<open>1 / 10\<close>.
\<close>

theorem get_executor_config_buy_activation_negative:
  "(case get_executor_config example_config [1 / 2, 1 / 2] 0 ''buy_1'' BUY
           [120, 110] [90, 80] 50 100 1000 of
      Inl e \<Rightarrow> None
    | Inr c \<Rightarrow> Some (activation_price (trailing_stop c)))
   = Some (- (1 / 10))
   \<and> py_min (relevant_high_clusters [120, 110] 100) = Inr 110
   \<and> \<bar>110 - 100\<bar> / 100 = (1 / 10 :: rat)"
  by (simp add: get_executor_config_def relevant_high_clusters_def relevant_low_clusters_def
      selected_clusters_def adjusted_amounts_pct_def ladder_prices_def ladder_amounts_quote_def
      breakeven_price_def stop_loss_and_trailing_def decimal_div_def example_config_def Let_def)

section \<open>Properties of the clustering\<close>

lemma boolean_mask_empty:
  assumes "length labels = length peaks"
  shows "boolean_mask peaks labels k = [] \<longleftrightarrow> k \<notin> set labels"
proof -
  have "boolean_mask peaks labels k = [] \<longleftrightarrow> (\<forall>x\<in>set (zip peaks labels). snd x \<noteq> k)"
    by (auto simp: boolean_mask_def filter_empty_conv)
  also have "\<dots> \<longleftrightarrow> k \<notin> snd ` set (zip peaks labels)" by auto
  also have "snd ` set (zip peaks labels) = set labels"
    using assms by (metis map_snd_zip set_map)
  finally show ?thesis .
qed

lemma undefined_centroids_count:
  assumes len: "length labels = length peaks"
  shows "nat num_clusters - length peaks
         \<le> length (filter (\<lambda>c. c = None)
             (map (\<lambda>k. np_mean (boolean_mask peaks labels k)) [1..num_clusters]))"
proof -
  let ?ks = "[1..num_clusters]"
  have none: "np_mean (boolean_mask peaks labels k) = None \<longleftrightarrow> k \<notin> set labels" for k
    using boolean_mask_empty[OF len] by (simp add: np_mean_def)
  have "length (filter (\<lambda>c. c = None) (map (\<lambda>k. np_mean (boolean_mask peaks labels k)) ?ks))
      = length (filter (\<lambda>k. k \<notin> set labels) ?ks)"
    by (simp add: filter_map comp_def none)
  moreover have "length (filter (\<lambda>k. k \<notin> set labels) ?ks) + length (filter (\<lambda>k. k \<in> set labels) ?ks)
      = length ?ks"
    using sum_length_filter_compl[of "\<lambda>k. k \<notin> set labels" ?ks] by simp
  moreover have "length (filter (\<lambda>k. k \<in> set labels) ?ks) \<le> length peaks"
  proof -
    have "length (filter (\<lambda>k. k \<in> set labels) ?ks) = card ({k. k \<in> set labels} \<inter> set ?ks)"
      by (rule distinct_length_filter) simp
    also have "\<dots> \<le> card (set labels)" by (intro card_mono) auto
    also have "\<dots> \<le> length labels" by (rule card_length)
    finally show ?thesis using len by simp
  qed
  moreover have "length ?ks = nat num_clusters" by simp
  ultimately show ?thesis by linarith
qed

text \<open>
  C4, as the code has it. Whenever the library returns labels, one per peak, and there are
  fewer peaks than \<open>num_clusters\<close>, the function returns exactly \<open>num_clusters\<close>
  centroid entries, the entry of label \<open>k\<close> being the mean of the peaks labelled \<open>k\<close>.
  Nothing is dropped: a label with no peak keeps its entry, the undefined mean of an empty
  selection, and at least \<open>num_clusters - length peaks\<close> entries are undefined.
\<close>

theorem hierarchical_clustering_fewer_peaks_than_clusters:
  assumes "fcluster_result = Inr labels" and "length labels = length peaks"
    and "int (length peaks) < num_clusters"
  shows "\<exists>centroids.
       hierarchical_clustering fcluster_result peaks num_clusters = Inr (centroids, labels)
     \<and> length centroids = nat num_clusters
     \<and> (\<forall>i < nat num_clusters. centroids ! i = np_mean (boolean_mask peaks labels (int i + 1)))
     \<and> nat num_clusters - length peaks \<le> length (filter (\<lambda>c. c = None) centroids)
     \<and> None \<in> set centroids"
proof -
  define cs where "cs = map (\<lambda>k. np_mean (boolean_mask peaks labels k)) [1..num_clusters]"
  have r: "hierarchical_clustering fcluster_result peaks num_clusters = Inr (cs, labels)"
    using assms(1) by (simp add: hierarchical_clustering_def cs_def)
  have l: "length cs = nat num_clusters" by (simp add: cs_def)
  have n: "\<forall>i < nat num_clusters. cs ! i = np_mean (boolean_mask peaks labels (int i + 1))"
    by (simp add: cs_def add.commute)
  have c: "nat num_clusters - length peaks \<le> length (filter (\<lambda>c. c = None) cs)"
    unfolding cs_def by (rule undefined_centroids_count[OF assms(2)])
  have "0 < nat num_clusters - length peaks" using assms(3) by linarith
  with c have "0 < length (filter (\<lambda>c. c = None) cs)" by linarith
  then obtain c0 where "c0 \<in> set (filter (\<lambda>c. c = None) cs)"
    by (cases "filter (\<lambda>c. c = None) cs") auto
  then have m: "None \<in> set cs" by auto
  from r l n c m show ?thesis by blast
qed

theorem hierarchical_clustering_fewer_peaks_than_clusters_witness:
  "length [1, 2 :: int] = length [110, 120 :: rat]
   \<and> int (length [110, 120 :: rat]) < 3
   \<and> (\<exists>centroids. hierarchical_clustering (Inr [1, 2]) [110, 120] 3 = Inr (centroids, [1, 2])
        \<and> length centroids = 3 \<and> None \<in> set centroids)"
proof -
  have h2: "length [1, 2 :: int] = length [110, 120 :: rat]" by simp
  have h3: "int (length [110, 120 :: rat]) < 3" by simp
  from hierarchical_clustering_fewer_peaks_than_clusters [OF refl h2 h3]
  obtain centroids where
    "hierarchical_clustering (Inr [1, 2]) [110, 120] 3 = Inr (centroids, [1, 2])"
    "length centroids = nat 3" "None \<in> set centroids"
    by blast
  then show ?thesis by auto
qed

text \<open>
  The claim C4 as stated fails: two peaks and three clusters give a list of three
  entries, not fewer, and its last entry is the undefined centroid.
\<close>

theorem hierarchical_clustering_keeps_undefined_centroid_counterexample:
  "int (length [110, 120 :: rat]) < 3
   \<and> hierarchical_clustering (Inr [1, 2]) [110, 120] 3 = Inr ([Some 110, Some 120, None], [1, 2])
   \<and> \<not> length [Some 110, Some 120, None :: rat option] < 3
   \<and> None \<in> set [Some 110, Some 120, None :: rat option]"
  by (simp add: hierarchical_clustering_def np_mean_def boolean_mask_def upto.simps)

section \<open>Properties of the executor handler\<close>

text \<open>
  C7. A Store action whose target executor exists and is not closed does nothing: no
  exception, \<^verbatim>\<open>store_executor\<close> is not called and no list changes (the state is the same
  state), and the loop goes on with the remaining actions.
\<close>

theorem store_on_open_executor_is_noop:
  assumes "get_executor_by_id self executor_id = Some executor" and "\<not> is_closed executor"
  shows "execute_actions_step (StoreExecutorAction executor_id) self = (None, self)
     \<and> execute_actions (StoreExecutorAction executor_id # actions) self
         = execute_actions actions self"
  using assms by simp

theorem store_on_open_executor_is_noop_witness:
  "get_executor_by_id example_handler ''dca-1'' = Some open_dca
   \<and> \<not> is_closed open_dca
   \<and> execute_actions_step (StoreExecutorAction ''dca-1'') example_handler = (None, example_handler)
   \<and> execute_actions [StoreExecutorAction ''dca-1'', StoreExecutorAction ''dca-2''] example_handler
       = (None, example_handler \<lparr> stored_executors := [closed_dca], dca_executors := [open_dca] \<rparr>)"
proof -
  have h1: "get_executor_by_id example_handler ''dca-1'' = Some open_dca"
    by (simp add: get_executor_by_id_def example_handler_def open_dca_def closed_dca_def
        closed_position_def closed_arbitrage_def)
  have h2: "\<not> is_closed open_dca" by (simp add: open_dca_def)
  have rest: "execute_actions [StoreExecutorAction ''dca-2''] example_handler
       = (None, example_handler \<lparr> stored_executors := [closed_dca], dca_executors := [open_dca] \<rparr>)"
    by (simp add: get_executor_by_id_def example_handler_def open_dca_def closed_dca_def
        closed_position_def closed_arbitrage_def)
  show ?thesis
    using store_on_open_executor_is_noop [OF h1 h2, of "[StoreExecutorAction ''dca-2'']"] h1 h2 rest
    by simp
qed

text \<open>
  C10. A Store action never changes \<open>position_executors\<close> or \<open>arbitrage_executors\<close>.
  On a closed executor of any kind it calls \<^verbatim>\<open>store_executor\<close> and then removes the executor
  from \<open>dca_executors\<close> alone; for an executor that is not in that list the removal
  changes nothing (\<^verbatim>\<open>list.remove\<close> raises \<^verbatim>\<open>ValueError\<close> there), so a stored position or
  arbitrage executor stays in its own list.
\<close>

theorem store_removes_from_dca_executors_only:
  "position_executors (snd (execute_actions_step (StoreExecutorAction executor_id) self))
     = position_executors self
   \<and> arbitrage_executors (snd (execute_actions_step (StoreExecutorAction executor_id) self))
     = arbitrage_executors self
   \<and> (\<forall>executor. get_executor_by_id self executor_id = Some executor \<and> is_closed executor \<longrightarrow>
        execute_actions_step (StoreExecutorAction executor_id) self =
          (if executor \<in> set (dca_executors self) then None else Some ValueError,
           self \<lparr> stored_executors := stored_executors self @ [executor],
                  dca_executors := remove1 executor (dca_executors self) \<rparr>)
        \<and> (executor \<notin> set (dca_executors self) \<longrightarrow>
             remove1 executor (dca_executors self) = dca_executors self))"
  by (auto simp: remove1_idem split: option.splits)

theorem store_removes_from_dca_executors_only_witness:
  "get_executor_by_id example_handler ''pos-1'' = Some closed_position
   \<and> is_closed closed_position
   \<and> closed_position \<notin> set (dca_executors example_handler)
   \<and> execute_actions_step (StoreExecutorAction ''pos-1'') example_handler
       = (Some ValueError, example_handler \<lparr> stored_executors := [closed_position] \<rparr>)
   \<and> position_executors (snd (execute_actions_step (StoreExecutorAction ''pos-1'') example_handler))
       = [closed_position]"
proof -
  have h1: "get_executor_by_id example_handler ''pos-1'' = Some closed_position"
    by (simp add: get_executor_by_id_def example_handler_def open_dca_def closed_dca_def
        closed_position_def closed_arbitrage_def)
  have h2: "is_closed closed_position" by (simp add: closed_position_def)
  have h3: "closed_position \<notin> set (dca_executors example_handler)"
    by (simp add: example_handler_def open_dca_def closed_dca_def closed_position_def)
  have p: "position_executors example_handler = [closed_position]"
    by (simp add: example_handler_def)
  show ?thesis
    using store_removes_from_dca_executors_only [of "''pos-1''" example_handler] h1 h2 h3 p
    by (simp add: example_handler_def)
qed

section \<open>Properties of the script's proposals\<close>








lemma for_each_concat:
  assumes "\<And>x. x \<in> set xs \<Longrightarrow> body x = Inr (g x)"
  shows "for_each body xs = Inr (concat (map g xs))"
  using assms by (induction xs) simp_all

lemma filter_concat_map_distinct:
  assumes "distinct xs" and "x \<in> set xs"
    and "\<And>y. y \<in> set xs \<Longrightarrow> y \<noteq> x \<Longrightarrow> filter Q (F y) = []"
  shows "filter Q (concat (map F xs)) = filter Q (F x)"
  using assms
proof (induction xs)
  case Nil
  then show ?case by simp
next
  case (Cons a xs)
  show ?case
  proof (cases "a = x")
    case True
    with Cons.prems(1) have nx: "x \<notin> set xs" by simp
    have "filter Q (concat (map F xs)) = []"
    proof -
      have "\<forall>y\<in>set xs. filter Q (F y) = []"
        using Cons.prems(3) nx by auto
      then show ?thesis by (induction xs) auto
    qed
    with True show ?thesis by simp
  next
    case False
    with Cons.prems have "x \<in> set xs" "distinct xs" by auto
    moreover have "filter Q (F a) = []" using Cons.prems(3) False by auto
    ultimately show ?thesis using Cons.IH Cons.prems(3) by auto
  qed
qed

lemma filter_empty_if_none: "(\<And>a. a \<in> set xs \<Longrightarrow> \<not> Q a) \<Longrightarrow> filter Q xs = []"
  by (simp add: filter_empty_conv)

lemma create_position_action_ok:
  assumes "order_price \<noteq> 0"
  shows "\<exists>a. create_position_action self connector pair trade_type order_price = Inr [a]
     \<and> creates_for connector pair trade_type a
     \<and> created a = Some (connector, pair, trade_type, order_price)"
  using assms by (simp add: create_position_action_def decimal_div_def)

lemma creates_for_unique:
  "creates_for c p t a \<Longrightarrow> creates_for c' p' t' a \<Longrightarrow> c' = c \<and> p' = p \<and> t' = t"
  by (cases a) auto

lemma create_actions_for_pair_ok:
  assumes "get_mid_price self connector pair \<noteq> 0"
    and "pmm_spread (strategy_config self) \<noteq> 1" and "pmm_spread (strategy_config self) \<noteq> - 1"
  shows "\<exists>actions. create_actions_for_pair self connector pair = Inr actions
     \<and> map created (filter (creates_for connector pair BUY) actions) =
         (if filter_executors (active_buy_position_executors self)
               (\<lambda>x. info_trading_pair x = pair) = []
          then [Some (connector, pair, BUY,
                  get_mid_price self connector pair * (1 - pmm_spread (strategy_config self)))]
          else [])
     \<and> map created (filter (creates_for connector pair SELL) actions) =
         (if filter_executors (active_sell_position_executors self)
               (\<lambda>x. info_trading_pair x = pair) = []
          then [Some (connector, pair, SELL,
                  get_mid_price self connector pair * (1 + pmm_spread (strategy_config self)))]
          else [])
     \<and> (\<forall>a\<in>set actions. creates_for connector pair BUY a \<or> creates_for connector pair SELL a)"
proof -
  let ?mid = "get_mid_price self connector pair"
  let ?s = "pmm_spread (strategy_config self)"
  have pb: "?mid * (1 - ?s) \<noteq> 0" using assms by simp
  have ps: "?mid * (1 + ?s) \<noteq> 0"
  proof -
    have "1 + ?s \<noteq> 0" using assms(3) by (metis add.commute add_eq_0_iff)
    with assms(1) show ?thesis by simp
  qed
  from create_position_action_ok[OF pb, of self connector pair BUY]
  obtain ab where ab: "create_position_action self connector pair BUY (?mid * (1 - ?s)) = Inr [ab]"
    "creates_for connector pair BUY ab"
    "created ab = Some (connector, pair, BUY, ?mid * (1 - ?s))" by blast
  from create_position_action_ok[OF ps, of self connector pair SELL]
  obtain as where as: "create_position_action self connector pair SELL (?mid * (1 + ?s)) = Inr [as]"
    "creates_for connector pair SELL as"
    "created as = Some (connector, pair, SELL, ?mid * (1 + ?s))" by blast
  have nb: "\<not> creates_for connector pair SELL ab" using ab(2) creates_for_unique by blast
  have ns: "\<not> creates_for connector pair BUY as" using as(2) creates_for_unique by blast
  show ?thesis
    using ab as nb ns
    by (simp add: create_actions_for_pair_def Let_def)
qed

text \<open>
  C9, as the code has it. When no order price is zero the proposal succeeds, and for
  every connector and every pair that connector lists it holds, per side: exactly one
  Create action for that connector, pair and side, at \<^verbatim>\<open>mid_price * (1 - spread)\<close> for a Buy
  and \<^verbatim>\<open>mid_price * (1 + spread)\<close> for a Sell, when no active position executor of that
  side has the pair, and none when one has. Every action is such a Create. The test for
  an active executor looks at the pair alone, and the loop runs per connector: a pair
  listed by two connectors gets one Create per side from each.
\<close>

theorem create_actions_proposal_one_per_connector_pair_side:
  assumes dc: "distinct (connectors self)"
    and dp: "\<forall>c\<in>set (connectors self). distinct (get_trading_pairs self c)"
    and mid: "\<forall>c\<in>set (connectors self). \<forall>p\<in>set (get_trading_pairs self c).
                get_mid_price self c p \<noteq> 0"
    and s1: "pmm_spread (strategy_config self) \<noteq> 1"
    and s2: "pmm_spread (strategy_config self) \<noteq> - 1"
  shows "\<exists>actions. create_actions_proposal self = Inr actions
     \<and> (\<forall>c\<in>set (connectors self). \<forall>p\<in>set (get_trading_pairs self c).
          map created (filter (creates_for c p BUY) actions) =
            (if filter_executors (active_buy_position_executors self)
                  (\<lambda>x. info_trading_pair x = p) = []
             then [Some (c, p, BUY, get_mid_price self c p * (1 - pmm_spread (strategy_config self)))]
             else [])
        \<and> map created (filter (creates_for c p SELL) actions) =
            (if filter_executors (active_sell_position_executors self)
                  (\<lambda>x. info_trading_pair x = p) = []
             then [Some (c, p, SELL, get_mid_price self c p * (1 + pmm_spread (strategy_config self)))]
             else []))
     \<and> (\<forall>a\<in>set actions. \<exists>c\<in>set (connectors self). \<exists>p\<in>set (get_trading_pairs self c).
          creates_for c p BUY a \<or> creates_for c p SELL a)"
proof -
  define g where "g c p = (case create_actions_for_pair self c p of Inr a \<Rightarrow> a | Inl e \<Rightarrow> [])"
    for c p
  define G where "G c = concat (map (g c) (get_trading_pairs self c))" for c
  define A where "A = concat (map G (connectors self))"
  have pair_facts:
    "create_actions_for_pair self c p = Inr (g c p)
     \<and> map created (filter (creates_for c p BUY) (g c p)) =
         (if filter_executors (active_buy_position_executors self)
               (\<lambda>x. info_trading_pair x = p) = []
          then [Some (c, p, BUY, get_mid_price self c p * (1 - pmm_spread (strategy_config self)))]
          else [])
     \<and> map created (filter (creates_for c p SELL) (g c p)) =
         (if filter_executors (active_sell_position_executors self)
               (\<lambda>x. info_trading_pair x = p) = []
          then [Some (c, p, SELL, get_mid_price self c p * (1 + pmm_spread (strategy_config self)))]
          else [])
     \<and> (\<forall>a\<in>set (g c p). creates_for c p BUY a \<or> creates_for c p SELL a)"
    if "c \<in> set (connectors self)" "p \<in> set (get_trading_pairs self c)" for c p
  proof -
    from that mid have "get_mid_price self c p \<noteq> 0" by blast
    from create_actions_for_pair_ok[OF this s1 s2]
    obtain actions where a: "create_actions_for_pair self c p = Inr actions" and
      rest: "map created (filter (creates_for c p BUY) actions) =
         (if filter_executors (active_buy_position_executors self)
               (\<lambda>x. info_trading_pair x = p) = []
          then [Some (c, p, BUY, get_mid_price self c p * (1 - pmm_spread (strategy_config self)))]
          else [])"
       "map created (filter (creates_for c p SELL) actions) =
         (if filter_executors (active_sell_position_executors self)
               (\<lambda>x. info_trading_pair x = p) = []
          then [Some (c, p, SELL, get_mid_price self c p * (1 + pmm_spread (strategy_config self)))]
          else [])"
       "\<forall>a\<in>set actions. creates_for c p BUY a \<or> creates_for c p SELL a"
      by blast
    from a have "g c p = actions" by (simp add: g_def)
    with a rest show ?thesis by simp
  qed
  have inner: "for_each (create_actions_for_pair self c) (get_trading_pairs self c) = Inr (G c)"
    if "c \<in> set (connectors self)" for c
    unfolding G_def using pair_facts[OF that] by (intro for_each_concat) blast
  have outer: "create_actions_proposal self = Inr A"
    unfolding create_actions_proposal_def A_def using inner by (intro for_each_concat) blast
  have G_mem: "\<exists>p\<in>set (get_trading_pairs self c). creates_for c p BUY a \<or> creates_for c p SELL a"
    if "c \<in> set (connectors self)" "a \<in> set (G c)" for c a
    using that pair_facts[OF that(1)] by (auto simp: G_def)
  have A_mem: "\<exists>c\<in>set (connectors self). \<exists>p\<in>set (get_trading_pairs self c).
      creates_for c p BUY a \<or> creates_for c p SELL a" if "a \<in> set A" for a
  proof -
    from that obtain c where c: "c \<in> set (connectors self)" "a \<in> set (G c)"
      by (auto simp: A_def)
    from G_mem[OF c] c(1) show ?thesis by blast
  qed
  have sel: "filter (creates_for c p t) A = filter (creates_for c p t) (g c p)"
    if c: "c \<in> set (connectors self)" and p: "p \<in> set (get_trading_pairs self c)" for c p t
  proof -
    have "filter (creates_for c p t) A = filter (creates_for c p t) (G c)"
      unfolding A_def
    proof (rule filter_concat_map_distinct[OF dc c])
      fix c' assume c': "c' \<in> set (connectors self)" "c' \<noteq> c"
      show "filter (creates_for c p t) (G c') = []"
      proof (rule filter_empty_if_none)
        fix a assume "a \<in> set (G c')"
        from G_mem[OF c'(1) this] c'(2) show "\<not> creates_for c p t a"
          using creates_for_unique by blast
      qed
    qed
    also have "\<dots> = filter (creates_for c p t) (g c p)"
      unfolding G_def
    proof (rule filter_concat_map_distinct[OF _ p])
      show "distinct (get_trading_pairs self c)" using dp c by blast
    next
      fix p' assume p': "p' \<in> set (get_trading_pairs self c)" "p' \<noteq> p"
      show "filter (creates_for c p t) (g c p') = []"
      proof (rule filter_empty_if_none)
        fix a assume "a \<in> set (g c p')"
        with pair_facts[OF c p'(1)] have "creates_for c p' BUY a \<or> creates_for c p' SELL a"
          by blast
        with p'(2) show "\<not> creates_for c p t a"
          using creates_for_unique by blast
      qed
    qed
    finally show ?thesis .
  qed
  have main: "\<forall>c\<in>set (connectors self). \<forall>p\<in>set (get_trading_pairs self c).
          map created (filter (creates_for c p BUY) A) =
            (if filter_executors (active_buy_position_executors self)
                  (\<lambda>x. info_trading_pair x = p) = []
             then [Some (c, p, BUY, get_mid_price self c p * (1 - pmm_spread (strategy_config self)))]
             else [])
        \<and> map created (filter (creates_for c p SELL) A) =
            (if filter_executors (active_sell_position_executors self)
                  (\<lambda>x. info_trading_pair x = p) = []
             then [Some (c, p, SELL, get_mid_price self c p * (1 + pmm_spread (strategy_config self)))]
             else [])"
    using sel pair_facts by simp
  from outer main A_mem show ?thesis by blast
qed

lemmas pmm_defs =
  create_actions_proposal_def create_actions_for_pair_def create_position_action_def
  active_buy_position_executors_def active_sell_position_executors_def filter_executors_def
  example_strategy_def example_pmm_config_def example_pairs_def example_mid_price_def
  active_position_executor_def decimal_div_def triple_barrier_config_of_def Let_def

theorem create_actions_proposal_one_per_connector_pair_side_witness:
  "distinct (connectors (example_strategy [''binance'']
       [active_position_executor ''b1'' BUY ''BTC-USDT'' 4990]))
   \<and> distinct (get_trading_pairs (example_strategy [''binance'']
       [active_position_executor ''b1'' BUY ''BTC-USDT'' 4990]) ''binance'')
   \<and> get_mid_price (example_strategy [''binance'']
       [active_position_executor ''b1'' BUY ''BTC-USDT'' 4990]) ''binance'' ''BTC-USDT'' \<noteq> 0
   \<and> (\<exists>actions. create_actions_proposal (example_strategy [''binance'']
          [active_position_executor ''b1'' BUY ''BTC-USDT'' 4990]) = Inr actions
        \<and> map created (filter (creates_for ''binance'' ''BTC-USDT'' BUY) actions) = []
        \<and> map created (filter (creates_for ''binance'' ''BTC-USDT'' SELL) actions)
            = [Some (''binance'', ''BTC-USDT'', SELL, 1003)])"
proof -
  let ?s = "example_strategy [''binance''] [active_position_executor ''b1'' BUY ''BTC-USDT'' 4990]"
  have dc: "distinct (connectors ?s)" by (simp add: example_strategy_def)
  have dp: "\<forall>c\<in>set (connectors ?s). distinct (get_trading_pairs ?s c)"
    by (simp add: example_strategy_def example_pairs_def)
  have mid: "\<forall>c\<in>set (connectors ?s). \<forall>p\<in>set (get_trading_pairs ?s c). get_mid_price ?s c p \<noteq> 0"
    by (simp add: example_strategy_def example_mid_price_def)
  have s1: "pmm_spread (strategy_config ?s) \<noteq> 1"
    by (simp add: example_strategy_def example_pmm_config_def)
  have s2: "pmm_spread (strategy_config ?s) \<noteq> - 1"
    by (simp add: example_strategy_def example_pmm_config_def)
  have c: "''binance'' \<in> set (connectors ?s)" by (simp add: example_strategy_def)
  have p: "''BTC-USDT'' \<in> set (get_trading_pairs ?s ''binance'')"
    by (simp add: example_strategy_def example_pairs_def)
  have b: "filter_executors (active_buy_position_executors ?s)
             (\<lambda>x. info_trading_pair x = ''BTC-USDT'') \<noteq> []"
    by (simp add: pmm_defs)
  have s: "filter_executors (active_sell_position_executors ?s)
             (\<lambda>x. info_trading_pair x = ''BTC-USDT'') = []"
    by (simp add: pmm_defs)
  have v: "get_mid_price ?s ''binance'' ''BTC-USDT'' * (1 + pmm_spread (strategy_config ?s)) = 1003"
    by (simp add: example_strategy_def example_mid_price_def example_pmm_config_def)
  from create_actions_proposal_one_per_connector_pair_side [OF dc dp mid s1 s2]
  obtain actions where a: "create_actions_proposal ?s = Inr actions"
    and q: "\<forall>c\<in>set (connectors ?s). \<forall>p\<in>set (get_trading_pairs ?s c).
          map created (filter (creates_for c p BUY) actions) =
            (if filter_executors (active_buy_position_executors ?s)
                  (\<lambda>x. info_trading_pair x = p) = []
             then [Some (c, p, BUY, get_mid_price ?s c p * (1 - pmm_spread (strategy_config ?s)))]
             else [])
        \<and> map created (filter (creates_for c p SELL) actions) =
            (if filter_executors (active_sell_position_executors ?s)
                  (\<lambda>x. info_trading_pair x = p) = []
             then [Some (c, p, SELL, get_mid_price ?s c p * (1 + pmm_spread (strategy_config ?s)))]
             else [])"
    by blast
  from q c p have
    "map created (filter (creates_for ''binance'' ''BTC-USDT'' BUY) actions) =
       (if filter_executors (active_buy_position_executors ?s)
             (\<lambda>x. info_trading_pair x = ''BTC-USDT'') = []
        then [Some (''binance'', ''BTC-USDT'', BUY,
                get_mid_price ?s ''binance'' ''BTC-USDT'' * (1 - pmm_spread (strategy_config ?s)))]
        else [])"
    "map created (filter (creates_for ''binance'' ''BTC-USDT'' SELL) actions) =
       (if filter_executors (active_sell_position_executors ?s)
             (\<lambda>x. info_trading_pair x = ''BTC-USDT'') = []
        then [Some (''binance'', ''BTC-USDT'', SELL,
                get_mid_price ?s ''binance'' ''BTC-USDT'' * (1 + pmm_spread (strategy_config ?s)))]
        else [])"
    by blast+
  with b s v have
    "map created (filter (creates_for ''binance'' ''BTC-USDT'' BUY) actions) = []"
    "map created (filter (creates_for ''binance'' ''BTC-USDT'' SELL) actions)
       = [Some (''binance'', ''BTC-USDT'', SELL, 1003)]"
    by simp_all
  with a have "\<exists>actions. create_actions_proposal ?s = Inr actions
        \<and> map created (filter (creates_for ''binance'' ''BTC-USDT'' BUY) actions) = []
        \<and> map created (filter (creates_for ''binance'' ''BTC-USDT'' SELL) actions)
            = [Some (''binance'', ''BTC-USDT'', SELL, 1003)]"
    by (intro exI [of _ actions]) simp
  moreover have "distinct (get_trading_pairs ?s ''binance'')"
    by (simp add: example_strategy_def example_pairs_def)
  moreover have "get_mid_price ?s ''binance'' ''BTC-USDT'' \<noteq> 0"
    by (simp add: example_strategy_def example_mid_price_def)
  ultimately show ?thesis using dc by (intro conjI)
qed

text \<open>
  The claim C9 as stated fails: with no executor at all and two connectors that both
  list BTC-USDT, one tick proposes two Buy Creates (and two Sell Creates) for that pair.
\<close>

theorem create_actions_proposal_two_connectors_counterexample:
  "get_all_executors (example_strategy [''binance'', ''kucoin''] []) = []
   \<and> get_trading_pairs (example_strategy [''binance'', ''kucoin''] []) ''binance'' = [''BTC-USDT'']
   \<and> get_trading_pairs (example_strategy [''binance'', ''kucoin''] []) ''kucoin'' = [''BTC-USDT'']
   \<and> map_sum id (map created) (create_actions_proposal (example_strategy [''binance'', ''kucoin''] []))
       = Inr [Some (''binance'', ''BTC-USDT'', BUY, 997),
              Some (''binance'', ''BTC-USDT'', SELL, 1003),
              Some (''kucoin'', ''BTC-USDT'', BUY, 997),
              Some (''kucoin'', ''BTC-USDT'', SELL, 1003)]"
  by (simp add: pmm_defs)

end
